theory Spec2Isabelle
  imports Complex_Main
begin

section \<open>Data model of WeaponAiming.ts\<close>

text \<open>
  A JavaScript \<^verbatim>\<open>number\<close> is modelled as a real: the model is exact where the
  program rounds to a double. \<^verbatim>\<open>Phaser.Math.Vector2\<close> is a pair of numbers, a
  \<^verbatim>\<open>Phaser.Geom\<close> shape is its constructor arguments.
\<close>

datatype Vector2 = Vector2 (vx: real) (vy: real)

datatype Geom = Circle real real real | Rectangle real real real real

text \<open>
  The object a \<^verbatim>\<open>show...Aiming\<close> method returns. A property that the returned
  object literal does not have is \<open>None\<close>.
\<close>

record AimingResult =
  targetPoint :: Vector2
  trajectoryPoints :: "Vector2 list option"
  area :: "Geom option"

record AimingConfig =
  lineColor :: real
  lineAlpha :: real
  fillColor :: real
  fillAlpha :: real
  lineWidth :: real
  maxDistance :: real
  showTrajectory :: bool

text \<open>\<^verbatim>\<open>Partial<AimingConfig>\<close>: every key may be missing.\<close>

record PartialAimingConfig =
  p_lineColor :: "real option"
  p_lineAlpha :: "real option"
  p_fillColor :: "real option"
  p_fillAlpha :: "real option"
  p_lineWidth :: "real option"
  p_maxDistance :: "real option"
  p_showTrajectory :: "bool option"

text \<open>
  The calls a \<^verbatim>\<open>Phaser.GameObjects.Graphics\<close> object has received since its last
  \<^verbatim>\<open>clear()\<close>. The class only writes to it.
\<close>

datatype GraphicsCmd =
    LineStyle real real real
  | FillStyle real real
  | LineBetween real real real real
  | FillCircle real real real
  | StrokeCircle real real real
  | BeginPath
  | MoveTo real real
  | LineTo real real
  | Arc real real real real real
  | ClosePath
  | FillPath
  | StrokePath

text \<open>
  \<^verbatim>\<open>ProjectileCalculator\<close> is imported from another module and handed to the
  constructor: the class calls four of its methods. The object is a parameter of the
  model, a record of the four functions. \<open>'s\<close> is the scene, \<open>'l\<close> the tilemap layer
  holding the walls; both are only passed on to \<^verbatim>\<open>checkRaycastHitWall\<close>.
\<close>

datatype LinearTrajectory = LinearTrajectory (traj_start: Vector2) (traj_end: Vector2)

record ShotgunSpread =
  center :: Vector2
  leftEdge :: Vector2
  rightEdge :: Vector2

record ('s, 'l) ProjectileCalculator =
  calculateLinearTrajectory :: "real \<Rightarrow> real \<Rightarrow> real \<Rightarrow> real \<Rightarrow> LinearTrajectory"
  calculateParabolicTrajectory ::
    "real \<Rightarrow> real \<Rightarrow> real \<Rightarrow> real \<Rightarrow> real \<Rightarrow> nat \<Rightarrow> real \<Rightarrow> Vector2 list"
  calculateShotgunSpread :: "real \<Rightarrow> real \<Rightarrow> real \<Rightarrow> real \<Rightarrow> real \<Rightarrow> ShotgunSpread"
  checkRaycastHitWall :: "'s \<Rightarrow> real \<Rightarrow> real \<Rightarrow> real \<Rightarrow> real \<Rightarrow> 'l \<Rightarrow> Vector2 option"

text \<open>The fields of the class \<^verbatim>\<open>WeaponAiming\<close>.\<close>

record ('s, 'l) WeaponAiming =
  scene :: 's
  graphics :: "GraphicsCmd list"
  calculator :: "('s, 'l) ProjectileCalculator"
  config :: AimingConfig
  wallLayer :: "'l option"

text \<open>
  Modelled from the spec: the enum \<^verbatim>\<open>WeaponType\<close> is declared in WeaponTypes.ts,
  which is not among the sources. \<open>SNIPER\<close>, \<open>SHOTGUN\<close>, \<open>THROWER\<close>, \<open>BOMB\<close> and
  \<open>MACHINEGUN\<close> are the members the switch of \<^verbatim>\<open>showAiming\<close> names, \<open>DEFAULT\<close> is
  the default weapon kind of the spec's registry, and \<open>UNRECOGNIZED v\<close> is any other
  value that reaches the switch at run time.
\<close>

datatype WeaponType =
  DEFAULT | SNIPER | SHOTGUN | THROWER | BOMB | MACHINEGUN | UNRECOGNIZED string

text \<open>
  Reading \<^verbatim>\<open>lastPoint.x\<close> when \<^verbatim>\<open>lastPoint\<close> is \<^verbatim>\<open>undefined\<close> throws.
\<close>

datatype error = TypeError

section \<open>Constructor and setters\<close>

definition defaultConfig :: AimingConfig where
  "defaultConfig =
     \<lparr>lineColor = 16777215, lineAlpha = 0.7, fillColor = 16711680, fillAlpha = 0.5,
      lineWidth = 2, maxDistance = 500, showTrajectory = True\<rparr>"

definition mergeConfig :: "AimingConfig \<Rightarrow> PartialAimingConfig \<Rightarrow> AimingConfig" where
  "mergeConfig base c =
     \<lparr>lineColor = (case p_lineColor c of None \<Rightarrow> lineColor base | Some v \<Rightarrow> v),
      lineAlpha = (case p_lineAlpha c of None \<Rightarrow> lineAlpha base | Some v \<Rightarrow> v),
      fillColor = (case p_fillColor c of None \<Rightarrow> fillColor base | Some v \<Rightarrow> v),
      fillAlpha = (case p_fillAlpha c of None \<Rightarrow> fillAlpha base | Some v \<Rightarrow> v),
      lineWidth = (case p_lineWidth c of None \<Rightarrow> lineWidth base | Some v \<Rightarrow> v),
      maxDistance = (case p_maxDistance c of None \<Rightarrow> maxDistance base | Some v \<Rightarrow> v),
      showTrajectory =
        (case p_showTrajectory c of None \<Rightarrow> showTrajectory base | Some v \<Rightarrow> v)\<rparr>"

definition newWeaponAiming ::
  "'s \<Rightarrow> ('s, 'l) ProjectileCalculator \<Rightarrow> PartialAimingConfig option \<Rightarrow> ('s, 'l) WeaponAiming"
where
  "newWeaponAiming sc calc cfg =
     \<lparr>scene = sc, graphics = [], calculator = calc,
      config = (case cfg of None \<Rightarrow> defaultConfig | Some c \<Rightarrow> mergeConfig defaultConfig c),
      wallLayer = None\<rparr>"

definition setWallLayer :: "('s, 'l) WeaponAiming \<Rightarrow> 'l \<Rightarrow> ('s, 'l) WeaponAiming" where
  "setWallLayer this layer = this\<lparr>wallLayer := Some layer\<rparr>"

definition updateConfig ::
  "('s, 'l) WeaponAiming \<Rightarrow> PartialAimingConfig \<Rightarrow> ('s, 'l) WeaponAiming"
where
  "updateConfig this c = this\<lparr>config := mergeConfig (config this) c\<rparr>"

definition clear :: "('s, 'l) WeaponAiming \<Rightarrow> ('s, 'l) WeaponAiming" where
  "clear this = this\<lparr>graphics := []\<rparr>"

text \<open>\<^verbatim>\<open>Phaser.Math.Distance.Between\<close>.\<close>

definition distanceBetween :: "real \<Rightarrow> real \<Rightarrow> real \<Rightarrow> real \<Rightarrow> real" where
  "distanceBetween x1 y1 x2 y2 = sqrt ((x1 - x2) * (x1 - x2) + (y1 - y2) * (y1 - y2))"

section \<open>Weapon aiming\<close>

text \<open>
  Every \<^verbatim>\<open>show...Aiming\<close> method returns its result and the object with the
  calls it made on \<^verbatim>\<open>this.graphics\<close> appended. The wall test of the source is
  written out in each method, as it is there: \<^verbatim>\<open>if (this.wallLayer)\<close> is the
  case on \<open>wallLayer this\<close>, \<^verbatim>\<open>if (hitPoint)\<close> the case on the raycast's result.
\<close>

definition showDefaultAiming ::
  "('s, 'l) WeaponAiming \<Rightarrow> real \<Rightarrow> real \<Rightarrow> real \<Rightarrow> AimingResult \<times> ('s, 'l) WeaponAiming"
where
  "showDefaultAiming this startX startY angle =
     (let distance = maxDistance (config this) * 0.6;
          trajectory = calculateLinearTrajectory (calculator this) startX startY angle distance;
          endPoint =
            (case wallLayer this of
               None \<Rightarrow> Vector2 (vx (traj_end trajectory)) (vy (traj_end trajectory))
             | Some layer \<Rightarrow>
                 (case checkRaycastHitWall (calculator this) (scene this) startX startY
                         (vx (traj_end trajectory)) (vy (traj_end trajectory)) layer of
                    None \<Rightarrow> Vector2 (vx (traj_end trajectory)) (vy (traj_end trajectory))
                  | Some hitPoint \<Rightarrow> Vector2 (vx hitPoint) (vy hitPoint)))
      in (\<lparr>targetPoint = endPoint, trajectoryPoints = None, area = None\<rparr>,
          this\<lparr>graphics := graphics this @
            [LineBetween startX startY (vx endPoint) (vy endPoint),
             FillCircle (vx endPoint) (vy endPoint) 5]\<rparr>))"

definition showSniperAiming ::
  "('s, 'l) WeaponAiming \<Rightarrow> real \<Rightarrow> real \<Rightarrow> real \<Rightarrow> AimingResult \<times> ('s, 'l) WeaponAiming"
where
  "showSniperAiming this startX startY angle =
     (let distance = maxDistance (config this) * 1.5;
          trajectory = calculateLinearTrajectory (calculator this) startX startY angle distance;
          endPoint =
            (case wallLayer this of
               None \<Rightarrow> Vector2 (vx (traj_end trajectory)) (vy (traj_end trajectory))
             | Some layer \<Rightarrow>
                 (case checkRaycastHitWall (calculator this) (scene this) startX startY
                         (vx (traj_end trajectory)) (vy (traj_end trajectory)) layer of
                    None \<Rightarrow> Vector2 (vx (traj_end trajectory)) (vy (traj_end trajectory))
                  | Some hitPoint \<Rightarrow> Vector2 (vx hitPoint) (vy hitPoint)));
          dashLength = (10 :: real);
          gapLength = (5 :: real);
          lineLength = distanceBetween startX startY (vx endPoint) (vy endPoint);
          segments = \<lfloor>lineLength / (dashLength + gapLength)\<rfloor>;
          directionX = cos angle;
          directionY = sin angle;
          dashes =
            map (\<lambda>i. let startDash = real i * (dashLength + gapLength)
                     in LineBetween (startX + directionX * startDash)
                          (startY + directionY * startDash)
                          (startX + directionX * (startDash + dashLength))
                          (startY + directionY * (startDash + dashLength)))
              [0..<nat segments]
      in (\<lparr>targetPoint = endPoint, trajectoryPoints = None, area = None\<rparr>,
          this\<lparr>graphics := graphics this @ dashes @
            [LineStyle 1 (lineColor (config this)) (lineAlpha (config this)),
             StrokeCircle (vx endPoint) (vy endPoint) 15,
             StrokeCircle (vx endPoint) (vy endPoint) 5,
             LineBetween (vx endPoint - 20) (vy endPoint) (vx endPoint + 20) (vy endPoint),
             LineBetween (vx endPoint) (vy endPoint - 20) (vx endPoint) (vy endPoint + 20)]\<rparr>))"

definition showShotgunAiming ::
  "('s, 'l) WeaponAiming \<Rightarrow> real \<Rightarrow> real \<Rightarrow> real \<Rightarrow> AimingResult \<times> ('s, 'l) WeaponAiming"
where
  "showShotgunAiming this startX startY angle =
     (let distance = maxDistance (config this) * 0.4;
          spreadAngle = pi / 6;
          spread = calculateShotgunSpread (calculator this) startX startY angle distance
                     spreadAngle;
          centerPoint =
            (case wallLayer this of
               None \<Rightarrow> Vector2 (vx (center spread)) (vy (center spread))
             | Some layer \<Rightarrow>
                 (case checkRaycastHitWall (calculator this) (scene this) startX startY
                         (vx (center spread)) (vy (center spread)) layer of
                    None \<Rightarrow> Vector2 (vx (center spread)) (vy (center spread))
                  | Some hitPoint \<Rightarrow> Vector2 (vx hitPoint) (vy hitPoint)));
          arcRadius = distanceBetween startX startY (vx centerPoint) (vy centerPoint);
          startAngle = angle - spreadAngle;
          endAngle = angle + spreadAngle
      in (\<lparr>targetPoint = centerPoint, trajectoryPoints = None, area = None\<rparr>,
          this\<lparr>graphics := graphics this @
            [BeginPath,
             MoveTo startX startY,
             LineTo (startX + cos startAngle * arcRadius) (startY + sin startAngle * arcRadius),
             Arc startX startY arcRadius startAngle endAngle,
             LineTo startX startY,
             ClosePath,
             FillPath,
             StrokePath]\<rparr>))"

text \<open>
  The launch power of the thrower: the first two lines of \<^verbatim>\<open>showThrowerAiming\<close>.
\<close>

definition throwerPower :: "real \<Rightarrow> real" where
  "throwerPower joystickDistance =
     (let normalizedDistance = min (joystickDistance / 100) 1
      in 300 + normalizedDistance * 500)"

text \<open>
  The wall loop of \<^verbatim>\<open>showThrowerAiming\<close>, from index \<open>i\<close> on: the hit point and
  the index of the first segment \<open>(i - 1, i)\<close> that the raycast reports as blocked, which
  is where the loop breaks; \<open>None\<close> when the loop runs to the end. The array
  \<^verbatim>\<open>trajectoryPoints\<close> of the source is \<open>points\<close> here and below, the result's
  property keeping the name.
\<close>

function wallLoop ::
  "(Vector2 \<Rightarrow> Vector2 \<Rightarrow> Vector2 option) \<Rightarrow> Vector2 list \<Rightarrow> nat \<Rightarrow> (Vector2 \<times> nat) option"
where
  "wallLoop raycast points i =
     (if i < length points then
        (let prevPoint = points ! (i - 1);
             currentPoint = points ! i
         in case raycast prevPoint currentPoint of
              Some hitPoint \<Rightarrow> Some (Vector2 (vx hitPoint) (vy hitPoint), i)
            | None \<Rightarrow> wallLoop raycast points (Suc i))
      else None)"
  by pat_completeness auto
termination
  by (relation "measure (\<lambda>(raycast, points, i). length points - i)") auto

declare wallLoop.simps [simp del]

definition showThrowerAiming ::
  "('s, 'l) WeaponAiming \<Rightarrow> real \<Rightarrow> real \<Rightarrow> real \<Rightarrow> real \<Rightarrow>
     (error + AimingResult) \<times> ('s, 'l) WeaponAiming"
where
  "showThrowerAiming this startX startY angle joystickDistance =
     (let power' = throwerPower joystickDistance;
          points =
            calculateParabolicTrajectory (calculator this) startX startY angle power' 980 20 2;
          hit =
            (case wallLayer this of
               None \<Rightarrow> None
             | Some layer \<Rightarrow>
                 wallLoop
                   (\<lambda>prevPoint currentPoint.
                      checkRaycastHitWall (calculator this) (scene this)
                        (vx prevPoint) (vy prevPoint) (vx currentPoint) (vy currentPoint) layer)
                   points 1)
      in if hit = None \<and> points = [] then (Inl TypeError, this)
         else
           (let endPoint =
                  (case hit of
                     Some (p, i) \<Rightarrow> p
                   | None \<Rightarrow>
                       (let lastPoint = points ! (length points - 1)
                        in Vector2 (vx lastPoint) (vy lastPoint)));
                endPointIndex =
                  (case hit of
                     Some (p, i) \<Rightarrow> i
                   | None \<Rightarrow> length points - 1);
                validTrajectoryPoints = take (endPointIndex + 1) points;
                lines =
                  (if showTrajectory (config this) then
                     map (\<lambda>i. let prevPoint = validTrajectoryPoints ! (i - 1);
                                  currentPoint = validTrajectoryPoints ! i
                              in LineBetween (vx prevPoint) (vy prevPoint)
                                   (vx currentPoint) (vy currentPoint))
                       [1..<length validTrajectoryPoints]
                   else []);
                vectorPoints = map (\<lambda>p. Vector2 (vx p) (vy p)) validTrajectoryPoints
            in (Inr \<lparr>targetPoint = endPoint, trajectoryPoints = Some vectorPoints,
                      area = None\<rparr>,
                this\<lparr>graphics := graphics this @ lines @
                  [FillCircle (vx endPoint) (vy endPoint) 8,
                   StrokeCircle (vx endPoint) (vy endPoint) 30]\<rparr>)))"

text \<open>The throw distance of the bomb: the first line of \<^verbatim>\<open>showBombAiming\<close>.\<close>

definition bombDistance :: "AimingConfig \<Rightarrow> real \<Rightarrow> real" where
  "bombDistance cfg joystickDistance = min (maxDistance cfg * 0.3) (joystickDistance * 2)"

definition showBombAiming ::
  "('s, 'l) WeaponAiming \<Rightarrow> real \<Rightarrow> real \<Rightarrow> real \<Rightarrow> real \<Rightarrow>
     AimingResult \<times> ('s, 'l) WeaponAiming"
where
  "showBombAiming this startX startY angle joystickDistance =
     (let distance = bombDistance (config this) joystickDistance;
          trajectory = calculateLinearTrajectory (calculator this) startX startY angle distance;
          endPoint = Vector2 (vx (traj_end trajectory)) (vy (traj_end trajectory))
      in (\<lparr>targetPoint = endPoint, trajectoryPoints = None, area = None\<rparr>,
          this\<lparr>graphics := graphics this @
            [StrokeCircle (vx endPoint) (vy endPoint) 50,
             FillCircle (vx endPoint) (vy endPoint) 10,
             LineBetween startX startY (vx endPoint) (vy endPoint)]\<rparr>))"

definition showMachineGunAiming ::
  "('s, 'l) WeaponAiming \<Rightarrow> real \<Rightarrow> real \<Rightarrow> real \<Rightarrow> AimingResult \<times> ('s, 'l) WeaponAiming"
where
  "showMachineGunAiming this startX startY angle =
     (let distance = maxDistance (config this) * 0.8;
          trajectory = calculateLinearTrajectory (calculator this) startX startY angle distance;
          endPoint =
            (case wallLayer this of
               None \<Rightarrow> Vector2 (vx (traj_end trajectory)) (vy (traj_end trajectory))
             | Some layer \<Rightarrow>
                 (case checkRaycastHitWall (calculator this) (scene this) startX startY
                         (vx (traj_end trajectory)) (vy (traj_end trajectory)) layer of
                    None \<Rightarrow> Vector2 (vx (traj_end trajectory)) (vy (traj_end trajectory))
                  | Some hitPoint \<Rightarrow> Vector2 (vx hitPoint) (vy hitPoint)));
          size' = (12 :: real)
      in (\<lparr>targetPoint = endPoint, trajectoryPoints = None, area = None\<rparr>,
          this\<lparr>graphics := graphics this @
            [LineBetween startX startY (vx endPoint) (vy endPoint),
             StrokeCircle (vx endPoint) (vy endPoint) size',
             LineBetween (vx endPoint - size') (vy endPoint) (vx endPoint + size') (vy endPoint),
             LineBetween (vx endPoint) (vy endPoint - size') (vx endPoint)
               (vy endPoint + size')]\<rparr>))"

text \<open>
  \<^verbatim>\<open>showAiming\<close> clears the graphics, sets the two styles and dispatches on the
  weapon type. Only the thrower can throw; the other results are wrapped in \<open>Inr\<close>.
\<close>

definition ok :: "AimingResult \<times> 'a \<Rightarrow> (error + AimingResult) \<times> 'a" where
  "ok p = (Inr (fst p), snd p)"

definition showAiming ::
  "('s, 'l) WeaponAiming \<Rightarrow> real \<Rightarrow> real \<Rightarrow> real \<Rightarrow> real \<Rightarrow> WeaponType \<Rightarrow>
     (error + AimingResult) \<times> ('s, 'l) WeaponAiming"
where
  "showAiming this startX startY angle joystickDistance weaponType =
     (let this' = this\<lparr>graphics :=
            [LineStyle (lineWidth (config this)) (lineColor (config this))
               (lineAlpha (config this)),
             FillStyle (fillColor (config this)) (fillAlpha (config this))]\<rparr>
      in case weaponType of
           SNIPER \<Rightarrow> ok (showSniperAiming this' startX startY angle)
         | SHOTGUN \<Rightarrow> ok (showShotgunAiming this' startX startY angle)
         | THROWER \<Rightarrow> showThrowerAiming this' startX startY angle joystickDistance
         | BOMB \<Rightarrow> ok (showBombAiming this' startX startY angle joystickDistance)
         | MACHINEGUN \<Rightarrow> ok (showMachineGunAiming this' startX startY angle)
         | _ \<Rightarrow> ok (showDefaultAiming this' startX startY angle))"

definition getGraphics :: "('s, 'l) WeaponAiming \<Rightarrow> GraphicsCmd list" where
  "getGraphics this = graphics this"

section \<open>Skill aiming\<close>

definition showDefaultSkillAiming ::
  "('s, 'l) WeaponAiming \<Rightarrow> real \<Rightarrow> real \<Rightarrow> AimingResult \<times> ('s, 'l) WeaponAiming"
where
  "showDefaultSkillAiming this startX startY =
     (let radius = (50 :: real)
      in (\<lparr>targetPoint = Vector2 startX startY, trajectoryPoints = None,
           area = Some (Circle startX startY radius)\<rparr>,
          this\<lparr>graphics := graphics this @
            [StrokeCircle startX startY radius, FillCircle startX startY radius]\<rparr>))"

text \<open>The dash distance: the first line of \<^verbatim>\<open>showDashSkillAiming\<close>.\<close>

definition dashDistance :: "real \<Rightarrow> real" where
  "dashDistance joystickDistance = min 200 (joystickDistance * 3)"

definition showDashSkillAiming ::
  "('s, 'l) WeaponAiming \<Rightarrow> real \<Rightarrow> real \<Rightarrow> real \<Rightarrow> real \<Rightarrow>
     AimingResult \<times> ('s, 'l) WeaponAiming"
where
  "showDashSkillAiming this startX startY angle joystickDistance =
     (let endX = startX + cos angle * dashDistance joystickDistance;
          endY = startY + sin angle * dashDistance joystickDistance;
          arrowSize = (10 :: real);
          arrowAngle1 = angle + pi * 0.8;
          arrowAngle2 = angle - pi * 0.8
      in (\<lparr>targetPoint = Vector2 endX endY, trajectoryPoints = None, area = None\<rparr>,
          this\<lparr>graphics := graphics this @
            [LineBetween startX startY endX endY,
             LineBetween endX endY (endX + cos arrowAngle1 * arrowSize)
               (endY + sin arrowAngle1 * arrowSize),
             LineBetween endX endY (endX + cos arrowAngle2 * arrowSize)
               (endY + sin arrowAngle2 * arrowSize)]\<rparr>))"

definition showShieldSkillAiming ::
  "('s, 'l) WeaponAiming \<Rightarrow> real \<Rightarrow> real \<Rightarrow> AimingResult \<times> ('s, 'l) WeaponAiming"
where
  "showShieldSkillAiming this startX startY =
     (let radius = (50 :: real)
      in (\<lparr>targetPoint = Vector2 startX startY, trajectoryPoints = None,
           area = Some (Circle startX startY radius)\<rparr>,
          this\<lparr>graphics := graphics this @
            [StrokeCircle startX startY radius,
             LineStyle 3 65535 0.5,
             StrokeCircle startX startY (radius * 0.7)]\<rparr>))"

definition showHealSkillAiming ::
  "('s, 'l) WeaponAiming \<Rightarrow> real \<Rightarrow> real \<Rightarrow> AimingResult \<times> ('s, 'l) WeaponAiming"
where
  "showHealSkillAiming this startX startY =
     (let radius = (80 :: real);
          crossSize = radius * 0.5
      in (\<lparr>targetPoint = Vector2 startX startY, trajectoryPoints = None,
           area = Some (Circle startX startY radius)\<rparr>,
          this\<lparr>graphics := graphics this @
            [StrokeCircle startX startY radius,
             FillCircle startX startY radius,
             LineStyle 4 16777215 0.8,
             LineBetween startX (startY - crossSize) startX (startY + crossSize),
             LineBetween (startX - crossSize) startY (startX + crossSize) startY]\<rparr>))"

definition showScopeSkillAiming ::
  "('s, 'l) WeaponAiming \<Rightarrow> real \<Rightarrow> real \<Rightarrow> real \<Rightarrow> AimingResult \<times> ('s, 'l) WeaponAiming"
where
  "showScopeSkillAiming this startX startY angle =
     (let distance = maxDistance (config this) * 1.5;
          endX = startX + cos angle * distance;
          endY = startY + sin angle * distance;
          leftAngle = angle - 0.1;
          rightAngle = angle + 0.1
      in (\<lparr>targetPoint = Vector2 endX endY, trajectoryPoints = None, area = None\<rparr>,
          this\<lparr>graphics := graphics this @
            [BeginPath,
             MoveTo startX startY,
             LineTo (startX + cos leftAngle * distance) (startY + sin leftAngle * distance),
             Arc startX startY distance leftAngle rightAngle,
             LineTo startX startY,
             ClosePath,
             FillPath]\<rparr>))"

text \<open>
  The throw distance of the bomb skill: the first two lines of
  \<^verbatim>\<open>showBombSkillAiming\<close>.
\<close>

definition throwDistance :: "real \<Rightarrow> real" where
  "throwDistance joystickDistance =
     (let maxDistance' = (200 :: real) in min maxDistance' (joystickDistance * 2))"

definition showBombSkillAiming ::
  "('s, 'l) WeaponAiming \<Rightarrow> real \<Rightarrow> real \<Rightarrow> real \<Rightarrow> real \<Rightarrow>
     AimingResult \<times> ('s, 'l) WeaponAiming"
where
  "showBombSkillAiming this startX startY angle joystickDistance =
     (let endX = startX + cos angle * throwDistance joystickDistance;
          endY = startY + sin angle * throwDistance joystickDistance;
          blastRadius = (70 :: real);
          dashLength = (5 :: real);
          gapLength = (5 :: real);
          lineLength = throwDistance joystickDistance;
          segments = \<lfloor>lineLength / (dashLength + gapLength)\<rfloor>;
          directionX = cos angle;
          directionY = sin angle;
          dashes =
            map (\<lambda>i. let startDash = real i * (dashLength + gapLength)
                     in LineBetween (startX + directionX * startDash)
                          (startY + directionY * startDash)
                          (startX + directionX * (startDash + dashLength))
                          (startY + directionY * (startDash + dashLength)))
              [0..<nat segments]
      in (\<lparr>targetPoint = Vector2 endX endY, trajectoryPoints = None,
           area = Some (Circle endX endY blastRadius)\<rparr>,
          this\<lparr>graphics := graphics this @
            [StrokeCircle endX endY blastRadius, FillCircle endX endY blastRadius] @
            dashes\<rparr>))"

text \<open>
  \<^verbatim>\<open>showSkillAiming\<close> clears the graphics, sets the two styles and dispatches on
  the skill type, a string.
\<close>

definition showSkillAiming ::
  "('s, 'l) WeaponAiming \<Rightarrow> real \<Rightarrow> real \<Rightarrow> real \<Rightarrow> real \<Rightarrow> string \<Rightarrow>
     AimingResult \<times> ('s, 'l) WeaponAiming"
where
  "showSkillAiming this startX startY angle joystickDistance skillType =
     (let this' = this\<lparr>graphics :=
            [LineStyle (lineWidth (config this)) 65535 (lineAlpha (config this)),
             FillStyle 65535 0.3]\<rparr>
      in if skillType = ''DASH'' then
           showDashSkillAiming this' startX startY angle joystickDistance
         else if skillType = ''SHIELD'' then showShieldSkillAiming this' startX startY
         else if skillType = ''HEAL'' then showHealSkillAiming this' startX startY
         else if skillType = ''SCOPE'' then showScopeSkillAiming this' startX startY angle
         else if skillType = ''BOMB'' then
           showBombSkillAiming this' startX startY angle joystickDistance
         else showDefaultSkillAiming this' startX startY)"

section \<open>The calculator of the spec\<close>

text \<open>
  Modelled from the spec: the module ProjectileCalculator is not among the sources. The
  spec's \<open>linear(origin, angle, distance)\<close>: the segment from the origin to
  \<open>origin + distance (cos angle, sin angle)\<close>.
\<close>

definition linear :: "real \<Rightarrow> real \<Rightarrow> real \<Rightarrow> real \<Rightarrow> LinearTrajectory" where
  "linear originX originY angle distance =
     LinearTrajectory (Vector2 originX originY)
       (Vector2 (originX + distance * cos angle) (originY + distance * sin angle))"

text \<open>
  Modelled from the spec: the module ProjectileCalculator is not among the sources. The
  spec's \<open>parabolic(origin, angle, initialSpeed, gravity, sampleCount, timeStep)\<close>:
  \<open>sampleCount\<close> samples of \<open>position(t) = origin + t v0 - 1/2 gravity t\<^sup>2\<close> in the y
  direction, spaced by \<open>timeStep\<close>, the origin first.
\<close>

definition parabolic ::
  "real \<Rightarrow> real \<Rightarrow> real \<Rightarrow> real \<Rightarrow> real \<Rightarrow> nat \<Rightarrow> real \<Rightarrow> Vector2 list"
where
  "parabolic originX originY angle initialSpeed gravity sampleCount timeStep =
     map (\<lambda>k. let t = real k * timeStep
              in Vector2 (originX + t * (initialSpeed * cos angle))
                   (originY + t * (initialSpeed * sin angle) - gravity * (t * t) / 2))
       [0..<sampleCount]"

text \<open>
  Modelled from the spec: the module ProjectileCalculator is not among the sources. The
  spec's \<open>conicSpread(origin, angle, distance, spreadAngle)\<close>: the linear endpoints at
  \<open>angle\<close>, \<open>angle - spreadAngle\<close> and \<open>angle + spreadAngle\<close>.
\<close>

definition conicSpread :: "real \<Rightarrow> real \<Rightarrow> real \<Rightarrow> real \<Rightarrow> real \<Rightarrow> ShotgunSpread" where
  "conicSpread originX originY angle distance spreadAngle =
     \<lparr>center = traj_end (linear originX originY angle distance),
      leftEdge = traj_end (linear originX originY (angle - spreadAngle) distance),
      rightEdge = traj_end (linear originX originY (angle + spreadAngle) distance)\<rparr>"

text \<open>
  Modelled from the spec: the module ProjectileCalculator and the tilemap are not among
  the sources. The wall grid of the spec's scenarios is one wall along the vertical line
  \<open>x = wallX\<close>, as long as the map is high. The spec's \<open>raycast(start, end, wallGrid)\<close>
  returns the first point of the segment on the wall, and nothing when the segment does
  not reach it.
\<close>

definition raycastVerticalWall ::
  "unit \<Rightarrow> real \<Rightarrow> real \<Rightarrow> real \<Rightarrow> real \<Rightarrow> real \<Rightarrow> Vector2 option"
where
  "raycastVerticalWall sc x1 y1 x2 y2 wallX =
     (if x1 = wallX then Some (Vector2 x1 y1)
      else if (x1 < wallX \<and> wallX \<le> x2) \<or> (x2 \<le> wallX \<and> wallX < x1) then
        Some (Vector2 wallX (y1 + (y2 - y1) * ((wallX - x1) / (x2 - x1))))
      else None)"

text \<open>
  Modelled from the spec: the calculator object of the scenarios, made of the four
  functions above. Its scene is a unit value, its wall layer the \<open>wallX\<close> of the wall.
\<close>

definition specCalculator :: "(unit, real) ProjectileCalculator" where
  "specCalculator =
     \<lparr>calculateLinearTrajectory = linear,
      calculateParabolicTrajectory = parabolic,
      calculateShotgunSpread = conicSpread,
      checkRaycastHitWall = raycastVerticalWall\<rparr>"

text \<open>
  The object of the scenarios: built by the constructor with no configuration, on the
  calculator of the spec; \<open>walled wallX\<close> has its wall layer set.
\<close>

definition fresh :: "(unit, real) WeaponAiming" where
  "fresh = newWeaponAiming () specCalculator None"

definition walled :: "real \<Rightarrow> (unit, real) WeaponAiming" where
  "walled wallX = setWallLayer fresh wallX"

section \<open>What a call leaves unchanged\<close>

lemmas weapon_defs = showDefaultAiming_def showSniperAiming_def showShotgunAiming_def
  showBombAiming_def showMachineGunAiming_def
lemmas skill_defs = showDefaultSkillAiming_def showDashSkillAiming_def showShieldSkillAiming_def
  showHealSkillAiming_def showScopeSkillAiming_def showBombSkillAiming_def

lemma showAiming_graphics_irrelevant:
  "showAiming (this\<lparr>graphics := g\<rparr>) x y a j w = showAiming this x y a j w"
  by (simp add: showAiming_def)

lemma showSkillAiming_graphics_irrelevant:
  "showSkillAiming (this\<lparr>graphics := g\<rparr>) x y a j t = showSkillAiming this x y a j t"
  by (simp add: showSkillAiming_def)

lemma weapon_frame:
  "snd (showDefaultAiming this x y a) = this\<lparr>graphics := graphics (snd (showDefaultAiming this x y a))\<rparr>"
  "snd (showSniperAiming this x y a) = this\<lparr>graphics := graphics (snd (showSniperAiming this x y a))\<rparr>"
  "snd (showShotgunAiming this x y a) = this\<lparr>graphics := graphics (snd (showShotgunAiming this x y a))\<rparr>"
  "snd (showBombAiming this x y a j) = this\<lparr>graphics := graphics (snd (showBombAiming this x y a j))\<rparr>"
  "snd (showMachineGunAiming this x y a) = this\<lparr>graphics := graphics (snd (showMachineGunAiming this x y a))\<rparr>"
  by (simp_all add: weapon_defs Let_def)

lemma thrower_frame:
  "snd (showThrowerAiming this x y a j) = this\<lparr>graphics := graphics (snd (showThrowerAiming this x y a j))\<rparr>"
  by (simp add: showThrowerAiming_def Let_def)

lemma showAiming_frame:
  "\<exists>g. snd (showAiming this x y a j w) = this\<lparr>graphics := g\<rparr>"
proof -
  define t where "t = this\<lparr>graphics :=
            [LineStyle (lineWidth (config this)) (lineColor (config this))
               (lineAlpha (config this)),
             FillStyle (fillColor (config this)) (fillAlpha (config this))]\<rparr>"
  have upd: "t\<lparr>graphics := g\<rparr> = this\<lparr>graphics := g\<rparr>" for g
    by (simp add: t_def)
  have "\<exists>g. snd (showAiming this x y a j w) = t\<lparr>graphics := g\<rparr>"
  proof (cases w)
    case THROWER
    then have "snd (showAiming this x y a j w) = snd (showThrowerAiming t x y a j)"
      by (simp add: showAiming_def t_def Let_def)
    then show ?thesis using thrower_frame [of t x y a j] by metis
  next
    case SNIPER
    then have "snd (showAiming this x y a j w) = snd (showSniperAiming t x y a)"
      by (simp add: showAiming_def t_def ok_def Let_def)
    then show ?thesis using weapon_frame(2) [of t x y a] by metis
  next
    case SHOTGUN
    then have "snd (showAiming this x y a j w) = snd (showShotgunAiming t x y a)"
      by (simp add: showAiming_def t_def ok_def Let_def)
    then show ?thesis using weapon_frame(3) [of t x y a] by metis
  next
    case BOMB
    then have "snd (showAiming this x y a j w) = snd (showBombAiming t x y a j)"
      by (simp add: showAiming_def t_def ok_def Let_def)
    then show ?thesis using weapon_frame(4) [of t x y a j] by metis
  next
    case MACHINEGUN
    then have "snd (showAiming this x y a j w) = snd (showMachineGunAiming t x y a)"
      by (simp add: showAiming_def t_def ok_def Let_def)
    then show ?thesis using weapon_frame(5) [of t x y a] by metis
  next
    case DEFAULT
    then have "snd (showAiming this x y a j w) = snd (showDefaultAiming t x y a)"
      by (simp add: showAiming_def t_def ok_def Let_def)
    then show ?thesis using weapon_frame(1) [of t x y a] by metis
  next
    case (UNRECOGNIZED v)
    then have "snd (showAiming this x y a j w) = snd (showDefaultAiming t x y a)"
      by (simp add: showAiming_def t_def ok_def Let_def)
    then show ?thesis using weapon_frame(1) [of t x y a] by metis
  qed
  then show ?thesis by (simp add: upd)
qed

lemma skill_frame:
  "snd (showSkillAiming this x y a j t)
     = this\<lparr>graphics := graphics (snd (showSkillAiming this x y a j t))\<rparr>"
  by (simp add: showSkillAiming_def skill_defs Let_def)

section \<open>Determinism\<close>

text \<open>
  Claim C6. Resolving is deterministic: two calls with the same origin, angle, input
  magnitude and category, on the same calculator, configuration and wall layer, return
  the same result. A call changes nothing of the object but its graphics, and what was
  drawn before has no part in the result: the second of two calls in a row returns what
  the first returned and leaves the object as the first left it, for weapons and skills
  alike, and so does a call on an object whose graphics hold anything else.
\<close>

theorem showAiming_deterministic:
  "showAiming (snd (showAiming this x y a j w)) x y a j w = showAiming this x y a j w \<and>
   showSkillAiming (snd (showSkillAiming this x y a j t)) x y a j t
     = showSkillAiming this x y a j t \<and>
   showAiming (this\<lparr>graphics := g\<rparr>) x y a j w = showAiming this x y a j w \<and>
   showSkillAiming (this\<lparr>graphics := g\<rparr>) x y a j t = showSkillAiming this x y a j t"
proof -
  obtain g1 where g1: "snd (showAiming this x y a j w) = this\<lparr>graphics := g1\<rparr>"
    using showAiming_frame by blast
  obtain g2 where g2: "snd (showSkillAiming this x y a j t) = this\<lparr>graphics := g2\<rparr>"
    using skill_frame by metis
  show ?thesis
    by (simp only: g1 g2 showAiming_graphics_irrelevant showSkillAiming_graphics_irrelevant)
qed

section \<open>Skills and the wall layer\<close>

text \<open>
  Claim C9. For every skill type, origin, angle and input magnitude the result of
  \<^verbatim>\<open>showSkillAiming\<close>, target point and area, does not depend on the wall layer: no
  skill path clips against walls. Setting the wall layer before the call, or replacing
  it by any other value, gives the same result and the same drawing.
\<close>

theorem skill_result_ignores_wall_layer:
  "showSkillAiming (setWallLayer this layer) x y a j t
     = (fst (showSkillAiming this x y a j t),
        setWallLayer (snd (showSkillAiming this x y a j t)) layer) \<and>
   fst (showSkillAiming (this\<lparr>wallLayer := w\<rparr>) x y a j t) = fst (showSkillAiming this x y a j t) \<and>
   graphics (snd (showSkillAiming (this\<lparr>wallLayer := w\<rparr>) x y a j t))
     = graphics (snd (showSkillAiming this x y a j t))"
  by (simp add: showSkillAiming_def skill_defs setWallLayer_def Let_def)

section \<open>The objects of the scenarios\<close>

lemma fresh_simps:
  "calculator fresh = specCalculator" "wallLayer fresh = None" "config fresh = defaultConfig"
  "scene fresh = ()"
  by (simp_all add: fresh_def newWeaponAiming_def)

lemma walled_simps:
  "calculator (walled w) = specCalculator" "wallLayer (walled w) = Some w"
  "config (walled w) = defaultConfig" "scene (walled w) = ()"
  by (simp_all add: walled_def setWallLayer_def fresh_simps)

lemma specCalculator_simps:
  "calculateLinearTrajectory specCalculator = linear"
  "calculateParabolicTrajectory specCalculator = parabolic"
  "calculateShotgunSpread specCalculator = conicSpread"
  "checkRaycastHitWall specCalculator = raycastVerticalWall"
  by (simp_all add: specCalculator_def)

lemma defaultConfig_simps:
  "maxDistance defaultConfig = 500" "showTrajectory defaultConfig = True"
  by (simp_all add: defaultConfig_def)

lemma new_simps:
  "calculator (newWeaponAiming sc calc cfg) = calc" "wallLayer (newWeaponAiming sc calc cfg) = None"
  "config (newWeaponAiming sc calc None) = defaultConfig"
  by (simp_all add: newWeaponAiming_def)

section \<open>Unknown categories\<close>

text \<open>
  Claim C5. For every origin, angle and input magnitude, resolving with a category that
  is not one of the recognised kinds does not fail and returns the result of the default
  profile. A weapon type other than the five the switch names gets what
  \<^verbatim>\<open>showDefaultAiming\<close> returns, which is what the default weapon gets, and the call
  returns a result; a skill type other than the five strings gets what
  \<^verbatim>\<open>showDefaultSkillAiming\<close> returns: the origin and a circle of radius 50 around it.
\<close>

theorem unknown_category_falls_back:
  "(weaponType \<notin> {SNIPER, SHOTGUN, THROWER, BOMB, MACHINEGUN} \<longrightarrow>
      showAiming this x y a j weaponType
        = ok (showDefaultAiming
               (this\<lparr>graphics :=
                  [LineStyle (lineWidth (config this)) (lineColor (config this))
                     (lineAlpha (config this)),
                   FillStyle (fillColor (config this)) (fillAlpha (config this))]\<rparr>) x y a) \<and>
      showAiming this x y a j weaponType = showAiming this x y a j DEFAULT \<and>
      (\<exists>r. fst (showAiming this x y a j weaponType) = Inr r)) \<and>
   (skillType \<notin> {''DASH'', ''SHIELD'', ''HEAL'', ''SCOPE'', ''BOMB''} \<longrightarrow>
      showSkillAiming this x y a j skillType
        = showDefaultSkillAiming
            (this\<lparr>graphics :=
               [LineStyle (lineWidth (config this)) 65535 (lineAlpha (config this)),
                FillStyle 65535 0.3]\<rparr>) x y \<and>
      fst (showSkillAiming this x y a j skillType)
        = \<lparr>targetPoint = Vector2 x y, trajectoryPoints = None,
           area = Some (Circle x y 50)\<rparr>)"
proof (intro conjI impI)
  assume w: "weaponType \<notin> {SNIPER, SHOTGUN, THROWER, BOMB, MACHINEGUN}"
  then show d: "showAiming this x y a j weaponType
        = ok (showDefaultAiming
               (this\<lparr>graphics :=
                  [LineStyle (lineWidth (config this)) (lineColor (config this))
                     (lineAlpha (config this)),
                   FillStyle (fillColor (config this)) (fillAlpha (config this))]\<rparr>) x y a)"
    by (cases weaponType) (simp_all add: showAiming_def Let_def)
  then show "showAiming this x y a j weaponType = showAiming this x y a j DEFAULT"
    by (simp add: showAiming_def Let_def)
  show "\<exists>r. fst (showAiming this x y a j weaponType) = Inr r"
    by (simp add: d ok_def)
next
  assume s: "skillType \<notin> {''DASH'', ''SHIELD'', ''HEAL'', ''SCOPE'', ''BOMB''}"
  then show d: "showSkillAiming this x y a j skillType
        = showDefaultSkillAiming
            (this\<lparr>graphics :=
               [LineStyle (lineWidth (config this)) 65535 (lineAlpha (config this)),
                FillStyle 65535 0.3]\<rparr>) x y"
    by (simp add: showSkillAiming_def Let_def)
  show "fst (showSkillAiming this x y a j skillType)
        = \<lparr>targetPoint = Vector2 x y, trajectoryPoints = None,
           area = Some (Circle x y 50)\<rparr>"
    by (simp add: d showDefaultSkillAiming_def Let_def)
qed

theorem unknown_category_falls_back_witness:
  "UNRECOGNIZED ''LASER'' \<notin> {SNIPER, SHOTGUN, THROWER, BOMB, MACHINEGUN} \<and>
   showAiming fresh 10 20 0 50 (UNRECOGNIZED ''LASER'') = showAiming fresh 10 20 0 50 DEFAULT \<and>
   (\<exists>r. fst (showAiming fresh 10 20 0 50 (UNRECOGNIZED ''LASER'')) = Inr r) \<and>
   ''FREEZE'' \<notin> {''DASH'', ''SHIELD'', ''HEAL'', ''SCOPE'', ''BOMB''} \<and>
   fst (showSkillAiming fresh 10 20 0 50 ''FREEZE'')
     = \<lparr>targetPoint = Vector2 10 20, trajectoryPoints = None, area = Some (Circle 10 20 50)\<rparr>"
proof -
  have w: "UNRECOGNIZED ''LASER'' \<notin> {SNIPER, SHOTGUN, THROWER, BOMB, MACHINEGUN}"
    by simp
  have s: "''FREEZE'' \<notin> {''DASH'', ''SHIELD'', ''HEAL'', ''SCOPE'', ''BOMB''}"
    by simp
  show ?thesis
    using unknown_category_falls_back [of "UNRECOGNIZED ''LASER''" fresh 10 20 0 50 "''FREEZE''"]
      w s
    by metis
qed

section \<open>Which results carry a trajectory\<close>

lemma showThrowerAiming_nonempty:
  assumes "calculateParabolicTrajectory (calculator this) x y a (throwerPower j) 980 20 2 \<noteq> []"
  shows "\<exists>r. fst (showThrowerAiming this x y a j) = Inr r \<and> trajectoryPoints r \<noteq> None"
  using assms by (simp add: showThrowerAiming_def Let_def)

lemma weapon_no_trajectory:
  "trajectoryPoints (fst (showDefaultAiming this x y a)) = None"
  "trajectoryPoints (fst (showSniperAiming this x y a)) = None"
  "trajectoryPoints (fst (showShotgunAiming this x y a)) = None"
  "trajectoryPoints (fst (showBombAiming this x y a j)) = None"
  "trajectoryPoints (fst (showMachineGunAiming this x y a)) = None"
  by (simp_all add: weapon_defs Let_def)

text \<open>
  Claim C10. For every origin, angle and input magnitude, \<^verbatim>\<open>showAiming\<close> returns a
  trajectory sample sequence if and only if the weapon type is the thrower; every other
  weapon type gets a target point and no trajectory. For the thrower the calculator is
  taken to return at least one sample, as the spec's \<open>parabolic\<close> does; on no sample the
  thrower's path throws.
\<close>

theorem trajectory_iff_thrower:
  assumes "weaponType = THROWER \<Longrightarrow>
     calculateParabolicTrajectory (calculator this) x y a (throwerPower j) 980 20 2 \<noteq> []"
  shows "\<exists>r. fst (showAiming this x y a j weaponType) = Inr r \<and>
           (trajectoryPoints r \<noteq> None) = (weaponType = THROWER)"
proof (cases weaponType)
  case THROWER
  then show ?thesis
    using showThrowerAiming_nonempty [of "this\<lparr>graphics :=
            [LineStyle (lineWidth (config this)) (lineColor (config this))
               (lineAlpha (config this)),
             FillStyle (fillColor (config this)) (fillAlpha (config this))]\<rparr>" x y a j] assms
    by (simp add: showAiming_def Let_def)
qed (simp_all add: showAiming_def Let_def ok_def weapon_no_trajectory)

theorem trajectory_iff_thrower_witness:
  "parabolic 0 0 0 (throwerPower 100) 980 20 2 \<noteq> [] \<and>
   (\<exists>r. fst (showAiming fresh 0 0 0 100 THROWER) = Inr r \<and> trajectoryPoints r \<noteq> None) \<and>
   (\<exists>r. fst (showAiming fresh 0 0 0 100 SNIPER) = Inr r \<and> trajectoryPoints r = None)"
proof -
  have ne: "calculateParabolicTrajectory (calculator fresh) 0 0 0 (throwerPower 100) 980 20 2
              \<noteq> []"
    by (simp add: fresh_simps specCalculator_simps parabolic_def)
  have "\<exists>r. fst (showAiming fresh 0 0 0 100 THROWER) = Inr r \<and> trajectoryPoints r \<noteq> None"
    using trajectory_iff_thrower [of THROWER fresh 0 0 0 100] ne by simp
  moreover
  have "\<exists>r. fst (showAiming fresh 0 0 0 100 SNIPER) = Inr r \<and> trajectoryPoints r = None"
    using trajectory_iff_thrower [of SNIPER fresh 0 0 0 100] by simp
  moreover have "parabolic 0 0 0 (throwerPower 100) 980 20 2 \<noteq> []"
    by (simp add: parabolic_def)
  ultimately show ?thesis by blast
qed

section \<open>Ranges that scale with the input\<close>

text \<open>
  Claim C8, as stated, for the thrower: its launch power would be a base range times
  \<open>min (inputMagnitude / norm) 1\<close>. No base range and norm make it so: the power is 300
  at input magnitude 0.
\<close>

theorem thrower_power_not_scaled_range:
  "\<not> (\<exists>baseRange norm. \<forall>j. throwerPower j = baseRange * min (j / norm) 1)"
proof
  assume "\<exists>baseRange norm. \<forall>j. throwerPower j = baseRange * min (j / norm) 1"
  then obtain baseRange norm where "\<forall>j. throwerPower j = baseRange * min (j / norm) 1"
    by blast
  then have "throwerPower 0 = baseRange * min (0 / norm) 1" by blast
  then show False by (simp add: throwerPower_def)
qed

text \<open>
  Claim C8, amended. The dash distance, the throw distance of the bomb skill and, for a
  positive \<^verbatim>\<open>maxDistance\<close>, the distance of the bomb weapon are a base range times
  \<open>min (inputMagnitude / norm) 1\<close>, with base range and norm 200 and 200/3, 200 and 100,
  0.3 and 0.15 times \<^verbatim>\<open>maxDistance\<close>. The launch power of the thrower is
  \<open>300 + 500 * min (inputMagnitude / 100) 1\<close>. All four are monotonically
  non-decreasing in the input magnitude and never exceed their maximum: 200, 200,
  0.3 times \<^verbatim>\<open>maxDistance\<close> and 800. The dash and the bomb skill aim at the point at
  that distance from the origin.
\<close>

theorem range_scaling:
  "dashDistance j = 200 * min (j / (200 / 3)) 1 \<and>
   throwDistance j = 200 * min (j / 100) 1 \<and>
   (0 < maxDistance cfg \<longrightarrow>
      bombDistance cfg j = (maxDistance cfg * 0.3) * min (j / (maxDistance cfg * 0.15)) 1) \<and>
   throwerPower j = 300 + 500 * min (j / 100) 1 \<and>
   (j \<le> j' \<longrightarrow>
      dashDistance j \<le> dashDistance j' \<and> throwDistance j \<le> throwDistance j' \<and>
      bombDistance cfg j \<le> bombDistance cfg j' \<and> throwerPower j \<le> throwerPower j') \<and>
   dashDistance j \<le> 200 \<and> throwDistance j \<le> 200 \<and>
   bombDistance cfg j \<le> maxDistance cfg * 0.3 \<and> throwerPower j \<le> 800 \<and>
   targetPoint (fst (showDashSkillAiming this x y a j))
     = Vector2 (x + cos a * dashDistance j) (y + sin a * dashDistance j) \<and>
   targetPoint (fst (showBombSkillAiming this x y a j))
     = Vector2 (x + cos a * throwDistance j) (y + sin a * throwDistance j)"
proof (intro conjI impI)
  show "dashDistance j = 200 * min (j / (200 / 3)) 1"
    by (simp add: dashDistance_def min_def)
  show "throwDistance j = 200 * min (j / 100) 1"
    by (simp add: throwDistance_def min_def)
  show "throwerPower j = 300 + 500 * min (j / 100) 1"
    by (simp add: throwerPower_def Let_def)
  show "dashDistance j \<le> 200" by (simp add: dashDistance_def)
  show "throwDistance j \<le> 200" by (simp add: throwDistance_def)
  show "bombDistance cfg j \<le> maxDistance cfg * 0.3" by (simp add: bombDistance_def)
  show "throwerPower j \<le> 800" by (simp add: throwerPower_def Let_def min_def)
  show "targetPoint (fst (showDashSkillAiming this x y a j))
     = Vector2 (x + cos a * dashDistance j) (y + sin a * dashDistance j)"
    by (simp add: showDashSkillAiming_def Let_def)
  show "targetPoint (fst (showBombSkillAiming this x y a j))
     = Vector2 (x + cos a * throwDistance j) (y + sin a * throwDistance j)"
    by (simp add: showBombSkillAiming_def Let_def)
next
  assume "0 < maxDistance cfg"
  then show "bombDistance cfg j = (maxDistance cfg * 0.3) * min (j / (maxDistance cfg * 0.15)) 1"
    by (simp add: bombDistance_def min_def field_simps)
next
  assume le: "j \<le> j'"
  then show "dashDistance j \<le> dashDistance j'" by (simp add: dashDistance_def min_def)
  from le show "throwDistance j \<le> throwDistance j'" by (simp add: throwDistance_def min_def)
  from le show "bombDistance cfg j \<le> bombDistance cfg j'" by (simp add: bombDistance_def min_def)
  from le show "throwerPower j \<le> throwerPower j'" by (simp add: throwerPower_def Let_def min_def)
qed

theorem range_scaling_witness:
  "0 < maxDistance defaultConfig \<and> (50 :: real) \<le> 150 \<and>
   bombDistance defaultConfig 50
     = (maxDistance defaultConfig * 0.3) * min (50 / (maxDistance defaultConfig * 0.15)) 1 \<and>
   dashDistance 50 = 200 * min (50 / (200 / 3)) 1 \<and>
   dashDistance 50 \<le> dashDistance 150 \<and> throwDistance 50 \<le> throwDistance 150 \<and>
   bombDistance defaultConfig 50 \<le> bombDistance defaultConfig 150 \<and>
   throwerPower 50 \<le> throwerPower 150 \<and> dashDistance 50 \<le> 200 \<and> throwerPower 50 \<le> 800"
proof -
  have pos: "0 < maxDistance defaultConfig"
    by (simp add: defaultConfig_def)
  have le: "(50 :: real) \<le> 150"
    by simp
  show ?thesis
    using range_scaling [of 50 defaultConfig 150] pos le by metis
qed

section \<open>The sniper scenario\<close>

text \<open>
  Claim C7. With origin (0, 0), angle 0, the sniper, no wall layer and the default
  \<^verbatim>\<open>maxDistance\<close> of 500, the range is 1.5 * 500 = 750 and the target point is
  (750, 0). On any calculator the target point is the end of its linear trajectory of
  length 750; on the calculator of the spec that end is (750, 0).
\<close>

theorem sniper_target_750:
  "fst (showAiming (newWeaponAiming sc calc None) x y a j SNIPER)
     = Inr \<lparr>targetPoint = traj_end (calculateLinearTrajectory calc x y a 750),
            trajectoryPoints = None, area = None\<rparr> \<and>
   fst (showAiming fresh 0 0 0 j SNIPER)
     = Inr \<lparr>targetPoint = Vector2 750 0, trajectoryPoints = None, area = None\<rparr>"
proof
  show g: "fst (showAiming (newWeaponAiming sc calc None) x y a j SNIPER)
     = Inr \<lparr>targetPoint = traj_end (calculateLinearTrajectory calc x y a 750),
            trajectoryPoints = None, area = None\<rparr>" for sc :: 's and calc :: "('s, 'l) ProjectileCalculator" and x y a
    by (simp add: showAiming_def showSniperAiming_def ok_def Let_def new_simps
        defaultConfig_simps)
  show "fst (showAiming fresh 0 0 0 j SNIPER)
     = Inr \<lparr>targetPoint = Vector2 750 0, trajectoryPoints = None, area = None\<rparr>"
    unfolding fresh_def by (simp add: g linear_def specCalculator_simps)
qed

section \<open>The shotgun\<close>

lemma distanceBetween_horizontal: "distanceBetween x y x' y = \<bar>x - x'\<bar>"
  by (simp add: distanceBetween_def)

text \<open>
  Claim C4, as stated, in its scenario: origin (0, 0), angle 0, the shotgun (range
  0.4 * 500 = 200, spread \<open>pi / 6\<close>), a wall along x = 100. The result would include an
  area. It has the target point (100, 0) and no area.
\<close>

theorem shotgun_scenario_no_area:
  "fst (showAiming (walled 100) 0 0 0 0 SHOTGUN)
     = Inr \<lparr>targetPoint = Vector2 100 0, trajectoryPoints = None, area = None\<rparr>"
  by (simp add: showAiming_def showShotgunAiming_def ok_def Let_def walled_simps
      specCalculator_simps defaultConfig_simps conicSpread_def linear_def raycastVerticalWall_def)

text \<open>
  Claim C4, amended. The result of the shotgun never has an area. The sector is drawn, not
  returned: a path that starts at the origin, with an arc around the origin from
  \<open>angle - pi / 6\<close> to \<open>angle + pi / 6\<close> whose radius is the distance from the origin to
  the returned target point. In the scenario the target point is clipped to (100, 0) and
  the arc drawn has radius 100.
\<close>

theorem shotgun_sector_is_drawn:
  "area (fst (showShotgunAiming this x y a)) = None \<and>
   Arc x y
     (distanceBetween x y (vx (targetPoint (fst (showShotgunAiming this x y a))))
        (vy (targetPoint (fst (showShotgunAiming this x y a)))))
     (a - pi / 6) (a + pi / 6)
     \<in> set (graphics (snd (showShotgunAiming this x y a))) \<and>
   MoveTo x y \<in> set (graphics (snd (showShotgunAiming this x y a))) \<and>
   fst (showAiming (walled 100) 0 0 0 j SHOTGUN)
     = Inr \<lparr>targetPoint = Vector2 100 0, trajectoryPoints = None, area = None\<rparr> \<and>
   Arc 0 0 100 (- (pi / 6)) (pi / 6) \<in> set (graphics (snd (showAiming (walled 100) 0 0 0 j SHOTGUN)))"
proof (intro conjI)
  show "area (fst (showShotgunAiming this x y a)) = None"
    by (simp add: showShotgunAiming_def Let_def)
  show "Arc x y
     (distanceBetween x y (vx (targetPoint (fst (showShotgunAiming this x y a))))
        (vy (targetPoint (fst (showShotgunAiming this x y a)))))
     (a - pi / 6) (a + pi / 6)
     \<in> set (graphics (snd (showShotgunAiming this x y a)))"
    by (simp add: showShotgunAiming_def Let_def)
  show "MoveTo x y \<in> set (graphics (snd (showShotgunAiming this x y a)))"
    by (simp add: showShotgunAiming_def Let_def)
  show "fst (showAiming (walled 100) 0 0 0 j SHOTGUN)
     = Inr \<lparr>targetPoint = Vector2 100 0, trajectoryPoints = None, area = None\<rparr>"
    by (simp add: showAiming_def showShotgunAiming_def ok_def Let_def walled_simps
      specCalculator_simps defaultConfig_simps conicSpread_def linear_def raycastVerticalWall_def)
  show "Arc 0 0 100 (- (pi / 6)) (pi / 6) \<in> set (graphics (snd (showAiming (walled 100) 0 0 0 j SHOTGUN)))"
    by (simp add: showAiming_def showShotgunAiming_def ok_def Let_def walled_simps
      specCalculator_simps defaultConfig_simps conicSpread_def linear_def raycastVerticalWall_def
      distanceBetween_horizontal)
qed

section \<open>The thrower and the walls\<close>

text \<open>
  The wall loop finds the first index, from \<open>i\<close> on, whose segment the raycast reports
  as blocked, and the point the raycast returned there.
\<close>

lemma wallLoop_find:
  "wallLoop raycast points i =
     (case List.find (\<lambda>k. raycast (points ! (k - 1)) (points ! k) \<noteq> None) [i..<length points] of
        None \<Rightarrow> None
      | Some k \<Rightarrow> Some (the (raycast (points ! (k - 1)) (points ! k)), k))"
proof (induction raycast points i rule: wallLoop.induct)
  case (1 raycast points i)
  show ?case
  proof (cases "i < length points")
    case False
    then show ?thesis
      by (simp add: wallLoop.simps [of raycast points i])
  next
    case True
    then have upt: "[i..<length points] = i # [Suc i..<length points]"
      by (simp add: upt_conv_Cons)
    show ?thesis
    proof (cases "raycast (points ! (i - 1)) (points ! i)")
      case None
      then have "wallLoop raycast points i = wallLoop raycast points (Suc i)"
        using True by (simp add: wallLoop.simps [of raycast points i])
      also have "\<dots> = (case List.find (\<lambda>k. raycast (points ! (k - 1)) (points ! k) \<noteq> None)
                          [Suc i..<length points] of
                        None \<Rightarrow> None
                      | Some k \<Rightarrow> Some (the (raycast (points ! (k - 1)) (points ! k)), k))"
        using "1.IH" [OF True refl refl None] .
      finally show ?thesis
        using None by (simp add: upt)
    next
      case (Some hitPoint)
      then show ?thesis
        using True by (simp add: wallLoop.simps [of raycast points i] upt)
    qed
  qed
qed

text \<open>The samples of the spec's \<open>parabolic\<close>.\<close>

lemma parabolic_nth:
  "k < n \<Longrightarrow> parabolic ox oy a v g n dt ! k =
     Vector2 (ox + real k * dt * (v * cos a)) (oy + real k * dt * (v * sin a) - g * (real k * dt * (real k * dt)) / 2)"
  by (simp add: parabolic_def Let_def)

lemma parabolic_length: "length (parabolic ox oy a v g n dt) = n"
  by (simp add: parabolic_def)

lemma parabolic_take2:
  "2 \<le> n \<Longrightarrow> take (Suc (Suc 0)) (parabolic ox oy a v g n dt)
     = [parabolic ox oy a v g n dt ! 0, parabolic ox oy a v g n dt ! Suc 0]"
  by (simp add: parabolic_length take_Suc_conv_app_nth)

lemma throwerPower_values: "throwerPower 0 = 300" "throwerPower 100 = 800"
  by (simp_all add: throwerPower_def)

text \<open>
  Claim C1, as stated, on the calculator of the spec with a wall along x = 100, origin
  (0, 0), angle 0, input magnitude 0: the target point would be the last element of the
  returned trajectory. The first segment, from (0, 0) to (600, -1960), is blocked; the
  trajectory returned ends with its far end (600, -1960), and the target point is where
  the segment meets the wall.
\<close>

theorem thrower_target_is_hit_point:
  "fst (showAiming (walled 100) 0 0 0 0 THROWER) =
     Inr \<lparr>targetPoint = Vector2 100 (- (980 / 3)),
          trajectoryPoints = Some [Vector2 0 0, Vector2 600 (- 1960)], area = None\<rparr> \<and>
   Vector2 100 (- (980 / 3)) \<noteq> last [Vector2 0 0, Vector2 600 (- 1960)]"
proof -
  define P where "P = parabolic 0 0 0 300 980 20 2"
  have len: "length P = 20"
    by (simp add: P_def parabolic_length)
  have p0: "P ! 0 = Vector2 0 0" and p1: "P ! Suc 0 = Vector2 600 (- 1960)"
    by (simp_all add: P_def parabolic_nth)
  have tk: "take (Suc (Suc 0)) P = [Vector2 0 0, Vector2 600 (- 1960)]"
    unfolding P_def by (simp add: parabolic_take2 parabolic_nth)
  have hit: "raycastVerticalWall () 0 0 600 (- 1960) 100 = Some (Vector2 100 (- (980 / 3)))"
    by (simp add: raycastVerticalWall_def)
  have wl: "wallLoop (\<lambda>prevPoint currentPoint.
                  raycastVerticalWall ()
                    (vx prevPoint) (vy prevPoint) (vx currentPoint) (vy currentPoint) 100)
                P (Suc 0) = Some (Vector2 100 (- (980 / 3)), Suc 0)"
    by (subst wallLoop.simps) (simp add: len p0 p1 hit)
  have "fst (showAiming (walled 100) 0 0 0 0 THROWER) =
     Inr \<lparr>targetPoint = Vector2 100 (- (980 / 3)),
          trajectoryPoints = Some [Vector2 0 0, Vector2 600 (- 1960)], area = None\<rparr>"
    using wl tk
    by (simp add: showAiming_def showThrowerAiming_def Let_def walled_simps
        specCalculator_simps throwerPower_values P_def [symmetric])
  then show ?thesis by simp
qed

text \<open>
  Claim C1, amended. For the thrower with a wall layer set, \<^verbatim>\<open>showThrowerAiming\<close>
  raycasts each consecutive pair of samples in order. When segment \<open>(i - 1, i)\<close> is the
  first one blocked, the returned trajectory is the samples up to and including sample
  \<open>i\<close>, and the target point is the point the raycast returned for that segment. When no
  segment is blocked, the trajectory is every sample and the target point is the last
  one. The calculator is taken to return at least one sample.
\<close>

theorem thrower_truncates_at_first_obstruction:
  fixes this :: "('s, 'l) WeaponAiming" and x y a j :: real and layer :: 'l
  defines "points \<equiv>
    calculateParabolicTrajectory (calculator this) x y a (throwerPower j) 980 20 2"
  defines "raycast \<equiv> \<lambda>i.
    checkRaycastHitWall (calculator this) (scene this) (vx (points ! (i - 1)))
      (vy (points ! (i - 1))) (vx (points ! i)) (vy (points ! i)) layer"
  assumes wall: "wallLayer this = Some layer" and nonempty: "points \<noteq> []"
  shows "fst (showThrowerAiming this x y a j) =
           Inr (case List.find (\<lambda>i. raycast i \<noteq> None) [1..<length points] of
                  None \<Rightarrow>
                    \<lparr>targetPoint = last points, trajectoryPoints = Some points, area = None\<rparr>
                | Some i \<Rightarrow>
                    \<lparr>targetPoint = the (raycast i),
                     trajectoryPoints = Some (take (Suc i) points), area = None\<rparr>)"
proof -
  have loop: "wallLoop (\<lambda>prevPoint currentPoint.
                  checkRaycastHitWall (calculator this) (scene this)
                    (vx prevPoint) (vy prevPoint) (vx currentPoint) (vy currentPoint) layer)
                points 1
              = (case List.find (\<lambda>i. raycast i \<noteq> None) [1..<length points] of
                   None \<Rightarrow> None | Some i \<Rightarrow> Some (the (raycast i), i))"
    unfolding raycast_def by (rule wallLoop_find)
  have last: "points ! (length points - 1) = last points"
    using nonempty by (simp add: last_conv_nth)
  show ?thesis
  proof (cases "List.find (\<lambda>i. raycast i \<noteq> None) [1..<length points]")
    case None
    then show ?thesis
      using wall nonempty loop last
      by (simp add: showThrowerAiming_def Let_def points_def [symmetric])
  next
    case (Some i)
    then show ?thesis
      using wall nonempty loop
      by (simp add: showThrowerAiming_def Let_def points_def [symmetric])
  qed
qed

theorem thrower_truncates_at_first_obstruction_witness:
  "wallLayer (walled 100) = Some 100 \<and>
   parabolic 0 0 0 (throwerPower 100) 980 20 2 \<noteq> [] \<and>
   fst (showThrowerAiming (walled 100) 0 0 0 100) =
     Inr \<lparr>targetPoint = Vector2 100 (- (245 / 2)),
          trajectoryPoints = Some [Vector2 0 0, Vector2 1600 (- 1960)], area = None\<rparr> \<and>
   wallLayer (walled (- 50)) = Some (- 50) \<and>
   fst (showThrowerAiming (walled (- 50)) 0 0 0 100) =
     Inr \<lparr>targetPoint = Vector2 30400 (- 707560),
          trajectoryPoints = Some (parabolic 0 0 0 800 980 20 2), area = None\<rparr>"
proof -
  define P where "P = parabolic 0 0 0 800 980 20 2"
  have len: "length P = 20"
    by (simp add: P_def parabolic_length)
  have p0: "P ! 0 = Vector2 0 0" and p1: "P ! Suc 0 = Vector2 1600 (- 1960)"
    by (simp_all add: P_def parabolic_nth)
  have tk: "take (Suc (Suc 0)) P = [Vector2 0 0, Vector2 1600 (- 1960)]"
    unfolding P_def by (simp add: parabolic_take2 parabolic_nth)
  have hit: "raycastVerticalWall () 0 0 1600 (- 1960) 100 = Some (Vector2 100 (- (245 / 2)))"
    by (simp add: raycastVerticalWall_def)
  have wall: "wallLayer (walled 100) = Some 100"
    by (simp add: walled_simps)
  have ne: "calculateParabolicTrajectory (calculator (walled 100)) 0 0 0 (throwerPower 100)
              980 20 2 \<noteq> []"
    by (simp add: walled_simps specCalculator_simps parabolic_def)
  have f: "List.find (\<lambda>i. raycastVerticalWall () (vx (P ! (i - 1))) (vy (P ! (i - 1)))
                 (vx (P ! i)) (vy (P ! i)) 100 \<noteq> None) [1..<length P] = Some 1"
    by (simp add: len upt_conv_Cons p0 p1 hit)
  have "fst (showThrowerAiming (walled 100) 0 0 0 100) =
     Inr \<lparr>targetPoint = the (raycastVerticalWall () (vx (P ! (1 - 1))) (vy (P ! (1 - 1)))
                 (vx (P ! 1)) (vy (P ! 1)) 100),
          trajectoryPoints = Some (take (Suc 1) P), area = None\<rparr>"
    using thrower_truncates_at_first_obstruction [OF wall ne]
    by (simp only: walled_simps specCalculator_simps throwerPower_values P_def [symmetric] f
        option.case)
  then have near: "fst (showThrowerAiming (walled 100) 0 0 0 100) =
     Inr \<lparr>targetPoint = Vector2 100 (- (245 / 2)),
          trajectoryPoints = Some [Vector2 0 0, Vector2 1600 (- 1960)], area = None\<rparr>"
    by (simp add: p0 p1 hit tk)

  define Q where "Q = parabolic 0 0 0 800 980 20 2"
  have len': "length Q = 20"
    by (simp add: Q_def parabolic_length)
  have px': "vx (Q ! i) = 1600 * real i" if "i < 20" for i
    using that by (simp add: Q_def parabolic_nth)
  have wall': "wallLayer (walled (- 50)) = Some (- 50)"
    by (simp add: walled_simps)
  have ne': "calculateParabolicTrajectory (calculator (walled (- 50))) 0 0 0 (throwerPower 100)
              980 20 2 \<noteq> []"
    by (simp add: walled_simps specCalculator_simps parabolic_def)
  have f': "List.find (\<lambda>i. raycastVerticalWall () (vx (Q ! (i - 1))) (vy (Q ! (i - 1)))
                 (vx (Q ! i)) (vy (Q ! i)) (- 50) \<noteq> None) [1..<length Q] = None"
    by (auto simp add: find_None_iff len' px' raycastVerticalWall_def)
  have "Q \<noteq> []"
    using len' by auto
  then have "last Q = Q ! (length Q - 1)"
    by (rule last_conv_nth)
  also have "\<dots> = Q ! 19"
    by (simp add: len')
  also have "\<dots> = Vector2 30400 (- 707560)"
    by (simp add: Q_def parabolic_nth)
  finally have l': "last Q = Vector2 30400 (- 707560)" .
  have "fst (showThrowerAiming (walled (- 50)) 0 0 0 100) =
     Inr \<lparr>targetPoint = last Q, trajectoryPoints = Some Q, area = None\<rparr>"
    using thrower_truncates_at_first_obstruction [OF wall' ne']
    by (simp only: walled_simps specCalculator_simps throwerPower_values Q_def [symmetric] f'
        option.case)
  then have far: "fst (showThrowerAiming (walled (- 50)) 0 0 0 100) =
     Inr \<lparr>targetPoint = Vector2 30400 (- 707560),
          trajectoryPoints = Some (parabolic 0 0 0 800 980 20 2), area = None\<rparr>"
    by (simp add: l') (simp add: Q_def)
  have "parabolic 0 0 0 (throwerPower 100) 980 20 2 \<noteq> []"
    by (simp add: parabolic_def)
  then show ?thesis
    using near far wall wall' by simp
qed

section \<open>Linear weapons and the walls\<close>

text \<open>
  Claim C2, as stated, for the bomb weapon, on the calculator of the spec with a wall
  along x = 100, origin (0, 0), angle 0, input magnitude 100: the target point would be
  the first obstruction between the origin and the endpoint (150, 0). The raycast finds
  one at (100, 0); the target point is (150, 0).
\<close>

theorem bomb_weapon_is_not_clipped:
  "raycastVerticalWall () 0 0 150 0 100 = Some (Vector2 100 0) \<and>
   fst (showAiming (walled 100) 0 0 0 100 BOMB)
     = Inr \<lparr>targetPoint = Vector2 150 0, trajectoryPoints = None, area = None\<rparr>"
  by (simp add: showAiming_def showBombAiming_def ok_def Let_def walled_simps
      specCalculator_simps defaultConfig_simps bombDistance_def linear_def
      raycastVerticalWall_def)

text \<open>
  Claim C2, amended. With a wall layer set, the default weapon, the sniper and the
  machine gun raycast from the origin to the linear endpoint (at 0.6, 1.5 and 0.8 times
  \<^verbatim>\<open>maxDistance\<close>) and return the obstruction point when there is one, the endpoint
  otherwise. The bomb weapon makes no raycast: its target point is the linear endpoint
  at its throw distance, whatever the wall layer holds.
\<close>

theorem linear_weapons_clip_at_wall:
  fixes this :: "('s, 'l) WeaponAiming" and x y a j :: real and layer :: 'l
  defines "endpoint \<equiv> \<lambda>distance.
    traj_end (calculateLinearTrajectory (calculator this) x y a distance)"
  defines "clipped \<equiv> \<lambda>distance.
    (case checkRaycastHitWall (calculator this) (scene this) x y
            (vx (endpoint distance)) (vy (endpoint distance)) layer of
       None \<Rightarrow> endpoint distance
     | Some hitPoint \<Rightarrow> hitPoint)"
  assumes wall: "wallLayer this = Some layer"
  shows "fst (showAiming this x y a j DEFAULT)
           = Inr \<lparr>targetPoint = clipped (maxDistance (config this) * 0.6),
                  trajectoryPoints = None, area = None\<rparr> \<and>
         fst (showAiming this x y a j SNIPER)
           = Inr \<lparr>targetPoint = clipped (maxDistance (config this) * 1.5),
                  trajectoryPoints = None, area = None\<rparr> \<and>
         fst (showAiming this x y a j MACHINEGUN)
           = Inr \<lparr>targetPoint = clipped (maxDistance (config this) * 0.8),
                  trajectoryPoints = None, area = None\<rparr> \<and>
         fst (showAiming this x y a j BOMB)
           = Inr \<lparr>targetPoint = endpoint (bombDistance (config this) j),
                  trajectoryPoints = None, area = None\<rparr>"
  using wall unfolding clipped_def endpoint_def
  by (simp add: showAiming_def ok_def Let_def showDefaultAiming_def showSniperAiming_def
      showMachineGunAiming_def showBombAiming_def split: option.split)

theorem linear_weapons_clip_at_wall_witness:
  "wallLayer (walled 100) = Some 100 \<and>
   fst (showAiming (walled 100) 0 0 0 0 DEFAULT)
     = Inr \<lparr>targetPoint = Vector2 100 0, trajectoryPoints = None, area = None\<rparr> \<and>
   fst (showAiming (walled 100) 0 0 0 0 SNIPER)
     = Inr \<lparr>targetPoint = Vector2 100 0, trajectoryPoints = None, area = None\<rparr> \<and>
   fst (showAiming (walled 100) 0 0 0 0 MACHINEGUN)
     = Inr \<lparr>targetPoint = Vector2 100 0, trajectoryPoints = None, area = None\<rparr> \<and>
   fst (showAiming (walled 1000) 0 0 0 0 SNIPER)
     = Inr \<lparr>targetPoint = Vector2 750 0, trajectoryPoints = None, area = None\<rparr> \<and>
   fst (showAiming (walled 100) 0 0 0 100 BOMB)
     = Inr \<lparr>targetPoint = Vector2 150 0, trajectoryPoints = None, area = None\<rparr>"
proof -
  have w: "wallLayer (walled v) = Some v" for v
    by (simp add: walled_simps)
  show ?thesis
    using linear_weapons_clip_at_wall [OF w [of 100], of 0 0 0 0]
      linear_weapons_clip_at_wall [OF w [of 100], of 0 0 0 100]
      linear_weapons_clip_at_wall [OF w [of 1000], of 0 0 0 0] w [of 100]
    by (simp add: walled_simps specCalculator_simps defaultConfig_simps bombDistance_def
        linear_def raycastVerticalWall_def)
qed

section \<open>Input magnitude 0\<close>

text \<open>
  Claim C3, as stated, for the thrower, on the calculator of the spec with no wall
  layer, origin (0, 0), angle 0: at input magnitude 0 the target point would be the
  origin. The launch power is 300 and the target point is the last of the 20 samples.
\<close>

theorem thrower_zero_input_not_origin:
  "fst (showAiming fresh 0 0 0 0 THROWER)
     = Inr \<lparr>targetPoint = Vector2 11400 (- 707560),
            trajectoryPoints = Some (parabolic 0 0 0 300 980 20 2), area = None\<rparr> \<and>
   Vector2 11400 (- 707560) \<noteq> Vector2 0 0"
proof -
  have "parabolic 0 0 0 300 980 20 2 \<noteq> []"
    by (simp add: parabolic_def)
  moreover have "parabolic 0 0 0 300 980 20 2 ! 19 = Vector2 11400 (- 707560)"
    by (simp add: parabolic_nth)
  ultimately show ?thesis
    by (simp add: showAiming_def showThrowerAiming_def Let_def fresh_simps
        specCalculator_simps throwerPower_values parabolic_length)
qed

text \<open>
  What the thrower returns, on a calculator that returns at least one sample, with and
  without a wall layer; the graphics have no part in it.
\<close>

lemma showThrowerAiming_result:
  fixes this :: "('s, 'l) WeaponAiming" and x y a j :: real
  defines "points \<equiv>
    calculateParabolicTrajectory (calculator this) x y a (throwerPower j) 980 20 2"
  assumes nonempty: "points \<noteq> []"
  shows "fst (showThrowerAiming this x y a j) =
           Inr (case wallLayer this of
                  None \<Rightarrow>
                    \<lparr>targetPoint = last points, trajectoryPoints = Some points, area = None\<rparr>
                | Some layer \<Rightarrow>
                    (case List.find
                            (\<lambda>i. checkRaycastHitWall (calculator this) (scene this)
                                   (vx (points ! (i - 1))) (vy (points ! (i - 1)))
                                   (vx (points ! i)) (vy (points ! i)) layer \<noteq> None)
                            [1..<length points] of
                       None \<Rightarrow>
                         \<lparr>targetPoint = last points, trajectoryPoints = Some points,
                          area = None\<rparr>
                     | Some i \<Rightarrow>
                         \<lparr>targetPoint =
                            the (checkRaycastHitWall (calculator this) (scene this)
                                   (vx (points ! (i - 1))) (vy (points ! (i - 1)))
                                   (vx (points ! i)) (vy (points ! i)) layer),
                          trajectoryPoints = Some (take (Suc i) points), area = None\<rparr>))"
proof -
  have last: "points ! (length points - 1) = last points"
    using nonempty by (simp add: last_conv_nth)
  show ?thesis
  proof (cases "wallLayer this")
    case None
    then show ?thesis
      using nonempty last
      by (simp add: showThrowerAiming_def Let_def points_def [symmetric])
  next
    case (Some layer)
    then show ?thesis
      using nonempty last
      by (simp add: showThrowerAiming_def Let_def points_def [symmetric] wallLoop_find
          split: option.split)
  qed
qed

lemma showThrowerAiming_graphics_irrelevant:
  "fst (showThrowerAiming (this\<lparr>graphics := g\<rparr>) x y a j) = fst (showThrowerAiming this x y a j)"
proof -
  have same: "wallLayer (this\<lparr>graphics := g\<rparr>) = wallLayer this"
    "calculator (this\<lparr>graphics := g\<rparr>) = calculator this"
    "scene (this\<lparr>graphics := g\<rparr>) = scene this"
    "config (this\<lparr>graphics := g\<rparr>) = config this"
    by simp_all
  have fst_if: "fst (if c then (p, s) else (q, t)) = (if c then p else q)"
    for c and p q :: "error + AimingResult" and s t :: "('a, 'b) WeaponAiming"
    by simp
  show ?thesis
    unfolding showThrowerAiming_def Let_def same fst_if ..
qed

lemma showAiming_THROWER:
  "fst (showAiming this x y a j THROWER) = fst (showThrowerAiming this x y a j)"
  by (simp add: showAiming_def Let_def showThrowerAiming_graphics_irrelevant)

text \<open>
  Claim C3, amended. At input magnitude 0 the dash distance and the throw distance of
  the bomb skill are 0 and their target point is the origin; with a non-negative
  \<^verbatim>\<open>maxDistance\<close> the distance of the bomb weapon is 0 and its target point is the end
  of the calculator's linear trajectory of length 0, which for the spec's \<open>linear\<close> is the
  origin. The thrower does not fail either, on a calculator that returns at least one
  sample, but its launch power is 300, the low end of its range of 300 to 800, not 0:
  it asks the calculator for the trajectory of power 300. With no wall layer its target
  point is the last sample of that trajectory; with a wall layer it is the point the
  raycast returned for the first blocked segment, and the last sample when no segment is
  blocked. On the spec's \<open>parabolic\<close>, from the origin (0, 0) at angle 0 with no wall
  layer, the target point is (11400, -707560).
\<close>

theorem zero_input_magnitude:
  fixes this :: "('s, 'l) WeaponAiming" and x y a :: real and layer :: 'l
  defines "points \<equiv> calculateParabolicTrajectory (calculator this) x y a 300 980 20 2"
  defines "raycast \<equiv> \<lambda>i.
    checkRaycastHitWall (calculator this) (scene this) (vx (points ! (i - 1)))
      (vy (points ! (i - 1))) (vx (points ! i)) (vy (points ! i)) layer"
  shows
  "dashDistance 0 = 0 \<and> throwDistance 0 = 0 \<and> throwerPower 0 = 300 \<and>
   fst (showSkillAiming this x y a 0 ''DASH'')
     = \<lparr>targetPoint = Vector2 x y, trajectoryPoints = None, area = None\<rparr> \<and>
   fst (showSkillAiming this x y a 0 ''BOMB'')
     = \<lparr>targetPoint = Vector2 x y, trajectoryPoints = None, area = Some (Circle x y 70)\<rparr> \<and>
   (0 \<le> maxDistance (config this) \<longrightarrow>
      bombDistance (config this) 0 = 0 \<and>
      fst (showAiming this x y a 0 BOMB)
        = Inr \<lparr>targetPoint = traj_end (calculateLinearTrajectory (calculator this) x y a 0),
               trajectoryPoints = None, area = None\<rparr>) \<and>
   (points \<noteq> [] \<longrightarrow> (\<exists>r. fst (showAiming this x y a 0 THROWER) = Inr r)) \<and>
   traj_end (linear x y a 0) = Vector2 x y \<and>
   (points \<noteq> [] \<longrightarrow> wallLayer this = None \<longrightarrow>
      fst (showAiming this x y a 0 THROWER)
        = Inr \<lparr>targetPoint = last points, trajectoryPoints = Some points, area = None\<rparr>) \<and>
   (points \<noteq> [] \<longrightarrow> wallLayer this = Some layer \<longrightarrow>
      fst (showAiming this x y a 0 THROWER)
        = Inr (case List.find (\<lambda>i. raycast i \<noteq> None) [1..<length points] of
                 None \<Rightarrow>
                   \<lparr>targetPoint = last points, trajectoryPoints = Some points, area = None\<rparr>
               | Some i \<Rightarrow>
                   \<lparr>targetPoint = the (raycast i),
                    trajectoryPoints = Some (take (Suc i) points), area = None\<rparr>)) \<and>
   fst (showAiming fresh 0 0 0 0 THROWER)
     = Inr \<lparr>targetPoint = Vector2 11400 (- 707560),
            trajectoryPoints = Some (parabolic 0 0 0 300 980 20 2), area = None\<rparr>"
proof (intro conjI impI)
  show "dashDistance 0 = 0" by (simp add: dashDistance_def)
  show "throwDistance 0 = 0" by (simp add: throwDistance_def)
  show "throwerPower 0 = 300" by (simp add: throwerPower_def)
  show "fst (showSkillAiming this x y a 0 ''DASH'')
     = \<lparr>targetPoint = Vector2 x y, trajectoryPoints = None, area = None\<rparr>"
    by (simp add: showSkillAiming_def showDashSkillAiming_def dashDistance_def Let_def)
  show "fst (showSkillAiming this x y a 0 ''BOMB'')
     = \<lparr>targetPoint = Vector2 x y, trajectoryPoints = None, area = Some (Circle x y 70)\<rparr>"
    by (simp add: showSkillAiming_def showBombSkillAiming_def throwDistance_def Let_def)
  show "traj_end (linear x y a 0) = Vector2 x y"
    by (simp add: linear_def)
  have "parabolic 0 0 0 300 980 20 2 \<noteq> []"
    by (simp add: parabolic_def)
  moreover have "parabolic 0 0 0 300 980 20 2 ! 19 = Vector2 11400 (- 707560)"
    by (simp add: parabolic_nth)
  ultimately show "fst (showAiming fresh 0 0 0 0 THROWER)
     = Inr \<lparr>targetPoint = Vector2 11400 (- 707560),
            trajectoryPoints = Some (parabolic 0 0 0 300 980 20 2), area = None\<rparr>"
    by (simp add: showAiming_def showThrowerAiming_def Let_def fresh_simps
        specCalculator_simps throwerPower_values parabolic_length)
next
  assume m: "0 \<le> maxDistance (config this)"
  then show b: "bombDistance (config this) 0 = 0"
    by (simp add: bombDistance_def)
  show "fst (showAiming this x y a 0 BOMB)
        = Inr \<lparr>targetPoint = traj_end (calculateLinearTrajectory (calculator this) x y a 0),
               trajectoryPoints = None, area = None\<rparr>"
    by (simp add: showAiming_def showBombAiming_def ok_def Let_def b)
next
  assume "points \<noteq> []"
  then show "\<exists>r. fst (showAiming this x y a 0 THROWER) = Inr r"
    by (simp add: showAiming_def showThrowerAiming_def Let_def throwerPower_values points_def)
next
  assume ne: "points \<noteq> []" and w: "wallLayer this = None"
  show "fst (showAiming this x y a 0 THROWER)
        = Inr \<lparr>targetPoint = last points, trajectoryPoints = Some points, area = None\<rparr>"
    using showThrowerAiming_result [of this x y a 0] ne
    unfolding showAiming_THROWER throwerPower_values points_def [symmetric]
    by (simp only: w option.case simp_thms)
next
  assume ne: "points \<noteq> []" and w: "wallLayer this = Some layer"
  show "fst (showAiming this x y a 0 THROWER)
        = Inr (case List.find (\<lambda>i. raycast i \<noteq> None) [1..<length points] of
                 None \<Rightarrow>
                   \<lparr>targetPoint = last points, trajectoryPoints = Some points, area = None\<rparr>
               | Some i \<Rightarrow>
                   \<lparr>targetPoint = the (raycast i),
                    trajectoryPoints = Some (take (Suc i) points), area = None\<rparr>)"
    using showThrowerAiming_result [of this x y a 0] ne
    unfolding showAiming_THROWER throwerPower_values points_def [symmetric] raycast_def
    by (simp only: w option.case simp_thms)
qed

theorem zero_input_magnitude_witness:
  "0 \<le> maxDistance (config fresh) \<and>
   bombDistance (config fresh) 0 = 0 \<and>
   fst (showAiming fresh 3 4 1 0 BOMB)
     = Inr \<lparr>targetPoint = Vector2 3 4, trajectoryPoints = None, area = None\<rparr> \<and>
   parabolic 3 4 1 300 980 20 2 \<noteq> [] \<and>
   (\<exists>r. fst (showAiming fresh 3 4 1 0 THROWER) = Inr r) \<and>
   wallLayer fresh = None \<and>
   fst (showAiming fresh 3 4 1 0 THROWER)
     = Inr \<lparr>targetPoint = last (parabolic 3 4 1 300 980 20 2),
            trajectoryPoints = Some (parabolic 3 4 1 300 980 20 2), area = None\<rparr> \<and>
   wallLayer (walled 100) = Some 100 \<and>
   parabolic 0 0 0 300 980 20 2 \<noteq> [] \<and>
   fst (showAiming (walled 100) 0 0 0 0 THROWER)
     = Inr \<lparr>targetPoint = Vector2 100 (- (980 / 3)),
            trajectoryPoints = Some [Vector2 0 0, Vector2 600 (- 1960)], area = None\<rparr>"
proof -
  have m: "0 \<le> maxDistance (config fresh)"
    by (simp add: fresh_simps defaultConfig_simps)
  have p: "calculateParabolicTrajectory (calculator fresh) 3 4 1 300 980 20 2 \<noteq> []"
    by (simp add: fresh_simps specCalculator_simps parabolic_def)
  have n: "wallLayer fresh = None"
    by (simp add: fresh_simps)
  have open_field:
    "0 \<le> maxDistance (config fresh) \<and>
     bombDistance (config fresh) 0 = 0 \<and>
     fst (showAiming fresh 3 4 1 0 BOMB)
       = Inr \<lparr>targetPoint = Vector2 3 4, trajectoryPoints = None, area = None\<rparr> \<and>
     parabolic 3 4 1 300 980 20 2 \<noteq> [] \<and>
     (\<exists>r. fst (showAiming fresh 3 4 1 0 THROWER) = Inr r) \<and>
     wallLayer fresh = None \<and>
     fst (showAiming fresh 3 4 1 0 THROWER)
       = Inr \<lparr>targetPoint = last (parabolic 3 4 1 300 980 20 2),
              trajectoryPoints = Some (parabolic 3 4 1 300 980 20 2), area = None\<rparr>"
    using zero_input_magnitude [of fresh 3 4 1] m p n
    by (simp add: fresh_simps specCalculator_simps)
  define P where "P = parabolic 0 0 0 300 980 20 2"
  have len: "length P = 20"
    by (simp add: P_def parabolic_length)
  have p0: "P ! 0 = Vector2 0 0" and p1: "P ! Suc 0 = Vector2 600 (- 1960)"
    by (simp_all add: P_def parabolic_nth)
  have tk: "take (Suc (Suc 0)) P = [Vector2 0 0, Vector2 600 (- 1960)]"
    unfolding P_def by (simp add: parabolic_take2 parabolic_nth)
  have hit: "raycastVerticalWall () 0 0 600 (- 1960) 100 = Some (Vector2 100 (- (980 / 3)))"
    by (simp add: raycastVerticalWall_def)
  have wall: "wallLayer (walled 100) = Some 100"
    by (simp add: walled_simps)
  have ne: "calculateParabolicTrajectory (calculator (walled 100)) 0 0 0 300 980 20 2 \<noteq> []"
    by (simp add: walled_simps specCalculator_simps parabolic_def)
  have f: "List.find (\<lambda>i. raycastVerticalWall () (vx (P ! (i - 1))) (vy (P ! (i - 1)))
                 (vx (P ! i)) (vy (P ! i)) 100 \<noteq> None) [1..<length P] = Some 1"
    by (simp add: len upt_conv_Cons p0 p1 hit)
  have "fst (showAiming (walled 100) 0 0 0 0 THROWER) =
     Inr \<lparr>targetPoint = the (raycastVerticalWall () (vx (P ! (1 - 1))) (vy (P ! (1 - 1)))
                 (vx (P ! 1)) (vy (P ! 1)) 100),
          trajectoryPoints = Some (take (Suc 1) P), area = None\<rparr>"
    using zero_input_magnitude [of "walled 100" 0 0 0 100] ne wall
    by (simp only: walled_simps specCalculator_simps P_def [symmetric] f option.case
        simp_thms)
  then have walled_field: "fst (showAiming (walled 100) 0 0 0 0 THROWER) =
     Inr \<lparr>targetPoint = Vector2 100 (- (980 / 3)),
          trajectoryPoints = Some [Vector2 0 0, Vector2 600 (- 1960)], area = None\<rparr>"
    by (simp add: p0 p1 hit tk)
  have "parabolic 0 0 0 300 980 20 2 \<noteq> []"
    by (simp add: parabolic_def)
  then show ?thesis
    using open_field walled_field wall by simp
qed

end
